theory Spec2Isabelle
  imports Main "HOL-Library.Char_ord" "HOL-Library.List_Lexorder" "HOL-Library.Multiset"
begin

section \<open>Strings\<close>

text \<open>
  A Go string is a sequence of bytes, here a \<^typ>\<open>string\<close> (a list of \<^typ>\<open>char\<close>,
  one per byte). Go compares strings byte by byte, a proper prefix being smaller: this is
  the lexicographic order on \<^typ>\<open>char list\<close> over the order of the byte values.

  The functions of this section are the ones the generator calls from Go's package
  \<open>strings\<close>, written out for the arguments the generator gives them.
\<close>

text \<open>\<open>strings.HasPrefix(s, prefix)\<close>: \<open>len(s) >= len(prefix) && s[:len(prefix)] == prefix\<close>.\<close>

definition HasPrefix :: "string \<Rightarrow> string \<Rightarrow> bool" where
  "HasPrefix s pre = (length pre \<le> length s \<and> take (length pre) s = pre)"

text \<open>\<open>strings.Contains(s, substr)\<close>: \<open>substr\<close> starts at some position of \<open>s\<close>.\<close>

fun Contains :: "string \<Rightarrow> string \<Rightarrow> bool" where
  "Contains [] substr = (substr = [])"
| "Contains (c # s) substr = (HasPrefix (c # s) substr \<or> Contains s substr)"

text \<open>
  \<open>strings.Split(s, " ")\<close>: the pieces of \<open>s\<close> between single spaces. Two spaces in a
  row give an empty piece, and a string with \<open>n\<close> spaces gives \<open>n + 1\<close> pieces; the
  generator only ever splits at \<open>" "\<close>. \<open>SplitFrom tok s\<close> carries the piece read so far.
\<close>

fun SplitFrom :: "string \<Rightarrow> string \<Rightarrow> string list" where
  "SplitFrom tok [] = [tok]"
| "SplitFrom tok (c # s) =
     (if c = CHR '' '' then tok # SplitFrom [] s else SplitFrom (tok @ [c]) s)"

definition Split :: "string \<Rightarrow> string list" where
  "Split s = SplitFrom [] s"

text \<open>\<open>strings.Join(elems, sep)\<close>.\<close>

fun Join :: "string list \<Rightarrow> string \<Rightarrow> string" where
  "Join [] sep = []"
| "Join [a] sep = a"
| "Join (a # b # elems) sep = a @ sep @ Join (b # elems) sep"

text \<open>
  \<open>strings.Title(s)\<close> maps the first letter of every word to title case, a word starting
  after a separator. On ASCII, \<open>isSeparator\<close> holds of every byte but the letters, the
  digits and the underscore, and \<open>unicode.ToTitle\<close> maps \<open>a\<close>..\<open>z\<close> to \<open>A\<close>..\<open>Z\<close>. The
  model is Go's function on ASCII strings, which metric names, type keywords and the help
  texts of the exposition are; a byte from 0x80 on is copied and counts as a letter (Go
  decodes it as part of a rune and consults the Unicode tables). The theorems below hold
  whatever \<open>Title\<close> returns, or evaluate it on ASCII text only.
\<close>

definition isSeparator :: "char \<Rightarrow> bool" where
  "isSeparator r =
     (if of_char r \<le> (0x7F :: nat) then
        \<not> ((CHR ''0'' \<le> r \<and> r \<le> CHR ''9'') \<or> (CHR ''a'' \<le> r \<and> r \<le> CHR ''z'') \<or>
           (CHR ''A'' \<le> r \<and> r \<le> CHR ''Z'') \<or> r = CHR ''_'')
      else False)"

definition ToTitle :: "char \<Rightarrow> char" where
  "ToTitle r = (if CHR ''a'' \<le> r \<and> r \<le> CHR ''z'' then char_of (of_char r - (32 :: nat)) else r)"

fun TitleFrom :: "char \<Rightarrow> string \<Rightarrow> string" where
  "TitleFrom prev [] = []"
| "TitleFrom prev (r # s) = (if isSeparator prev then ToTitle r else r) # TitleFrom r s"

definition Title :: "string \<Rightarrow> string" where
  "Title s = TitleFrom (CHR '' '') s"

section \<open>The metric catalog\<close>

record metric =
  name :: string
  description :: string
  mType :: string

type_synonym metricList = "metric list"

text \<open>
  The three methods of \<open>sort.Interface\<close> on a \<open>metricList\<close>. \<open>sort.Sort\<close> calls \<open>Less\<close>
  and \<open>Swap\<close> with indices below \<open>Len\<close>, and they are used below with such indices only
  (an index from \<open>Len\<close> on panics in Go).
\<close>

definition Len :: "metricList \<Rightarrow> nat" where
  "Len m = length m"

definition Less :: "metricList \<Rightarrow> nat \<Rightarrow> nat \<Rightarrow> bool" where
  "Less m i j = (name (m ! i) < name (m ! j))"

definition Swap :: "metricList \<Rightarrow> nat \<Rightarrow> nat \<Rightarrow> metricList" where
  "Swap m i j = m[i := m ! j, j := m ! i]"

section \<open>The exposition parser\<close>

text \<open>
  A run-time panic of Go: an index outside a slice (the index and the length), or the
  value given to \<open>panic\<close>, an error with its message.
\<close>

datatype panic = IndexOutOfRange nat nat | PanicError string

text \<open>
  \<open>parseMetricDesc\<close> reads \<open>split[2]\<close> and \<open>split[3]\<close> without a check of the length:
  each read is a branch that panics when the index is not there.
\<close>

definition parseMetricDesc :: "string \<Rightarrow> panic + (string \<times> string)" where
  "parseMetricDesc line =
     (let split = Split line in
      if length split \<le> 2 then Inl (IndexOutOfRange 2 (length split))
      else if length split \<le> 3 then Inl (IndexOutOfRange 3 (length split))
      else
        let name' = split ! 2;
            split = split[3 := Title (split ! 3)];
            description' = Join (drop 3 split) '' ''
        in Inr (name', description'))"

text \<open>
  The \<open>bufio.Scanner\<close> is its state: the lines it has still to yield (\<open>scan.Scan()\<close> takes
  the first, and is false when none is left), and the error \<open>scan.Err()\<close> reports once
  it has stopped. \<open>parseMetricType\<close> shares the scanner with its caller, so it returns
  the lines it has left.
\<close>

fun parseMetricType :: "string list \<Rightarrow> string \<Rightarrow> panic + (string \<times> string list)" where
  "parseMetricType [] name' = Inr ('''', [])"
| "parseMetricType (typeLine # scan) name' =
     (if HasPrefix typeLine ''# TYPE '' then
        (let split = Split typeLine in
         if length split \<le> 2 then Inl (IndexOutOfRange 2 (length split))
         else if split ! 2 = name' then
           (if length split \<le> 3 then Inl (IndexOutOfRange 3 (length split))
            else Inr (Title (split ! 3), scan))
         else parseMetricType scan name')
      else parseMetricType scan name')"

definition filter_str :: string where
  "filter_str = ''kubevirt_''"

lemma parseMetricType_length:
  "parseMetricType scan n = Inr (t, scan') \<Longrightarrow> length scan' \<le> length scan"
  by (induction scan n rule: parseMetricType.induct)
     (auto simp: Let_def split: if_splits)

text \<open>The scanning loop of \<open>parseVirtMetrics\<close>: the lines left, and \<open>*metrics\<close>.\<close>

function scanMetrics :: "string list \<Rightarrow> metricList \<Rightarrow> panic + metricList" where
  "scanMetrics [] metrics = Inr metrics"
| "scanMetrics (helpLine # scan) metrics =
     (if HasPrefix helpLine ''# HELP '' then
        (if Contains helpLine filter_str then
           (case parseMetricDesc helpLine of
              Inl p \<Rightarrow> Inl p
            | Inr (metName, metDesc) \<Rightarrow>
                (case parseMetricType scan metName of
                   Inl p \<Rightarrow> Inl p
                 | Inr (metType, scan') \<Rightarrow>
                     scanMetrics scan'
                       (metrics @ [\<lparr>name = metName, description = metDesc, mType = metType\<rparr>])))
         else scanMetrics scan metrics)
      else scanMetrics scan metrics)"
  by pat_completeness auto
termination
  by (relation "measure (\<lambda>(scan, metrics). length scan)")
     (auto dest: parseMetricType_length)

text \<open>
  \<open>sort.Sort\<close> belongs to Go's standard library, so it is a parameter \<open>srt\<close> of the
  model, the function from the slice before the call to the slice after it. What its
  documentation promises is \<open>sortSort\<close>: the data end up in ascending order as \<open>Less\<close>
  determines it, and they are moved by \<open>Swap\<close> only, so they are the same entries; the
  sort is not guaranteed to be stable.
\<close>

definition sortSort :: "(metricList \<Rightarrow> metricList) \<Rightarrow> bool" where
  "sortSort srt =
     (\<forall>m. mset (srt m) = mset m \<and>
          (\<forall>j < Len (srt m). \<forall>i < j. \<not> Less (srt m) j i))"

text \<open>
  \<open>parseVirtMetrics\<close>: the lines of the reader and the error the scanner ends with, and
  \<open>*metrics\<close>. It returns the error (\<open>None\<close> for \<open>nil\<close>) and leaves \<open>*metrics\<close>, or
  panics. The error of the scanner is wrapped in a message.
\<close>

definition parseVirtMetrics ::
  "(metricList \<Rightarrow> metricList) \<Rightarrow> string list \<times> string option \<Rightarrow> metricList \<Rightarrow>
     panic + (string option \<times> metricList)" where
  "parseVirtMetrics srt r metrics =
     (case scanMetrics (fst r) metrics of
        Inl p \<Rightarrow> Inl p
      | Inr metrics' \<Rightarrow>
          (case snd r of
             Some e \<Rightarrow>
               Inr (Some (''failed to parse metrics from prometheus endpoint, '' @ e), metrics')
           | None \<Rightarrow> Inr (None, srt metrics')))"

section \<open>The static registry and the rule adapter\<close>

text \<open>
  The five names the registry takes from package \<open>domainstats\<close> are constants of another
  package: they are the fields of a record the model is given. So is the list that
  \<open>components.GetRecordingRules("")\<close> returns, of rules with the three fields the generator
  reads (\<open>rule.Rule.Record\<close>, \<open>rule.Description\<close>, \<open>rule.MType\<close>).
\<close>

record domainstats =
  MigrateVmiDataProcessedMetricName :: string
  MigrateVmiDataRemainingMetricName :: string
  MigrateVmiDirtyMemoryRateMetricName :: string
  MigrateVmiMemoryTransferRateMetricName :: string
  MigrateVmiDiskTransferRateMetricName :: string

record Rule =
  Record :: string

record RecordingRule =
  Rule :: Rule
  Description :: string
  MType :: string

definition staticMetrics :: "domainstats \<Rightarrow> metricList" where
  "staticMetrics ds =
     [\<lparr>name = MigrateVmiDataProcessedMetricName ds,
       description = ''The total Guest OS data processed and migrated to the new VM.'',
       mType = ''Gauge''\<rparr>,
      \<lparr>name = MigrateVmiDataRemainingMetricName ds,
       description = ''The remaining guest OS data to be migrated to the new VM.'',
       mType = ''Gauge''\<rparr>,
      \<lparr>name = MigrateVmiDirtyMemoryRateMetricName ds,
       description = ''The rate of memory being dirty in the Guest OS.'',
       mType = ''Gauge''\<rparr>,
      \<lparr>name = MigrateVmiMemoryTransferRateMetricName ds,
       description = ''The rate at which the memory is being transferred.'',
       mType = ''Gauge''\<rparr>,
      \<lparr>name = MigrateVmiDiskTransferRateMetricName ds,
       description = ''The rate at which the disk is being transferred.'',
       mType = ''Gauge''\<rparr>,
      \<lparr>name = ''kubevirt_vmi_phase_count'',
       description = ''Sum of VMIs per phase and node. `phase` can be one of the following: [`Pending`, `Scheduling`, `Scheduled`, `Running`, `Succeeded`, `Failed`, `Unknown`].'',
       mType = ''Gauge''\<rparr>,
      \<lparr>name = ''kubevirt_vmi_non_evictable'',
       description = ''Indication for a VirtualMachine that its eviction strategy is set to Live Migration but is not migratable.'',
       mType = ''Gauge''\<rparr>,
      \<lparr>name = ''kubevirt_vmi_migration_phase_transition_time_from_creation_seconds'',
       description = ''Histogram of VM migration phase transitions duration from creation time in seconds.'',
       mType = ''Histogram''\<rparr>,
      \<lparr>name = ''kubevirt_vmi_phase_transition_time_seconds'',
       description = ''Histogram of VM phase transitions duration between different phases in seconds.'',
       mType = ''Histogram''\<rparr>,
      \<lparr>name = ''kubevirt_vmi_phase_transition_time_from_creation_seconds'',
       description = ''Histogram of VM phase transitions duration from creation time in seconds.'',
       mType = ''Histogram''\<rparr>,
      \<lparr>name = ''kubevirt_vmi_phase_transition_time_from_deletion_seconds'',
       description = ''Histogram of VM phase transitions duration from deletion time in seconds.'',
       mType = ''Histogram''\<rparr>,
      \<lparr>name = ''kubevirt_virt_operator_leading_status'',
       description = ''Indication for an operating virt-operator.'',
       mType = ''Gauge''\<rparr>,
      \<lparr>name = ''kubevirt_virt_operator_ready_status'',
       description = ''Indication for a virt-operator that is ready to take the lead.'',
       mType = ''Gauge''\<rparr>]"

text \<open>The body of the loop over the rules: the descriptor appended for one rule.\<close>

definition ruleMetric :: "RecordingRule \<Rightarrow> metric" where
  "ruleMetric rule =
     \<lparr>name = Record (Rule rule), description = Description rule, mType = Title (MType rule)\<rparr>"

definition getMetricsNotIncludeInEndpointByDefault ::
  "domainstats \<Rightarrow> RecordingRule list \<Rightarrow> metricList" where
  "getMetricsNotIncludeInEndpointByDefault ds rules = staticMetrics ds @ map ruleMetric rules"

section \<open>The renderer\<close>

text \<open>
  \<open>fmt.Fprintln\<close> on strings writes them with a space between two of them and a newline
  at the end. What is written to the file is the text returned.
\<close>

definition Fprintln :: "string list \<Rightarrow> string" where
  "Fprintln operands = Join operands '' '' @ [CHR 0x0A]"

definition metric_writeToFile :: "metric \<Rightarrow> string" where
  "metric_writeToFile m =
     Fprintln [''###'', name m] @
     Fprintln [description m, ''Type:'', mType m @ ''.''] @
     Fprintln []"

fun metricList_writeToFile :: "metricList \<Rightarrow> string" where
  "metricList_writeToFile [] = []"
| "metricList_writeToFile (met # m) = metric_writeToFile met @ metricList_writeToFile m"

definition genFileComment :: string where
  "genFileComment =
     ''<!--'' @ [CHR 0x0A, CHR 0x09] @
     ''This is an auto-generated file.'' @ [CHR 0x0A, CHR 0x09] @
     ''PLEASE DO NOT EDIT THIS FILE.'' @ [CHR 0x0A, CHR 0x09] @
     ''See '' @ [CHR 0x22] @ ''Developing new metrics'' @ [CHR 0x22] @
     '' below how to generate this file'' @ [CHR 0x0A] @
     ''-->''"

definition title :: string where
  "title = ''# KubeVirt metrics'' @ [CHR 0x0A]"

definition background :: string where
  "background =
     ''This document aims to help users that are not familiar with all metrics exposed by different KubeVirt components.'' @ [CHR 0x0A] @
     ''All metrics documented here are auto-generated by the utility tool `tools/doc-generator` and reflects exactly what is being exposed.'' @ [CHR 0x0A, CHR 0x0A]"

definition KVSpecificMetrics :: string where
  "KVSpecificMetrics =
     ''## KubeVirt Metrics List'' @ [CHR 0x0A] @
     ''### kubevirt_info'' @ [CHR 0x0A] @
     ''Version information.'' @ [CHR 0x0A, CHR 0x0A]"

definition opening_text :: string where
  "opening_text = genFileComment @ [CHR 0x0A, CHR 0x0A] @ title @ background @ KVSpecificMetrics"

definition footerHeading :: string where
  "footerHeading = ''## Developing new metrics'' @ [CHR 0x0A]"

definition footerContent :: string where
  "footerContent =
     ''After developing new metrics or changing old ones, please run `make generate` to regenerate this document.'' @ [CHR 0x0A, CHR 0x0A] @
     ''If you feel that the new metric doesn'' @ [CHR 0x27] @ ''t follow these rules, please change `doc-generator` with your needs.'' @ [CHR 0x0A]"

definition footer :: string where
  "footer = footerHeading @ footerContent"

text \<open>
  \<open>writeToFile\<close>: \<open>os.Create\<close> gives the file or an error, which \<open>checkError\<close> turns into
  a panic. The result is the text of \<open>newmetrics.md\<close>.
\<close>

definition writeToFile :: "string option \<Rightarrow> metricList \<Rightarrow> panic + string" where
  "writeToFile createErr metrics =
     (case createErr of
        Some err \<Rightarrow> Inl (PanicError err)
      | None \<Rightarrow> Inr (opening_text @ metricList_writeToFile metrics @ footer))"

section \<open>The driver\<close>

text \<open>The verb \<open>%d\<close> of \<open>fmt\<close>: an integer in decimal.\<close>

function formatNat :: "nat \<Rightarrow> string" where
  "formatNat n =
     (if n < 10 then [''0123456789'' ! n]
      else formatNat (n div 10) @ [''0123456789'' ! (n mod 10)])"
  by pat_completeness auto
termination
  by (relation "measure id") auto

declare formatNat.simps [simp del]

definition formatInt :: "int \<Rightarrow> string" where
  "formatInt i = (if i < 0 then CHR ''-'' # formatNat (nat (- i)) else formatNat (nat i))"

text \<open>The number a string of decimal digits stands for.\<close>

definition decimalValue :: "string \<Rightarrow> nat" where
  "decimalValue s = foldl (\<lambda>a c. 10 * a + (of_char c - 48)) 0 s"

text \<open>
  \<open>main\<close>. The handler is outside the generator: what it leaves in the recorder is the
  status \<open>code\<close> and the body \<open>body\<close>, the lines a scanner reads from it and the error
  the scanner ends with. \<open>http.NewRequest\<close> does not fail on the constant method and
  path it is given. The outcome is a panic, which ends the process before
  \<open>newmetrics.md\<close> exists, or the text written to that file.
\<close>

definition main ::
  "(metricList \<Rightarrow> metricList) \<Rightarrow> domainstats \<Rightarrow> RecordingRule list \<Rightarrow> int \<Rightarrow>
     string list \<times> string option \<Rightarrow> string option \<Rightarrow> panic + string" where
  "main srt ds rules code body createErr =
     (let metrics = getMetricsNotIncludeInEndpointByDefault ds rules in
      if code = 200 then
        (case parseVirtMetrics srt body metrics of
           Inl p \<Rightarrow> Inl p
         | Inr (err, metrics') \<Rightarrow>
             (case err of
                Some e \<Rightarrow> Inl (PanicError e)
              | None \<Rightarrow> writeToFile createErr metrics'))
      else Inl (PanicError (''got HTTP status code of '' @ formatInt code @ '' from /metrics'')))"

section \<open>Deprecated feature gates\<close>

type_synonym State = string

definition GA :: State where
  "GA = ''Genraly Available''"

definition Deprecated :: State where
  "Deprecated = ''Deprecated''"

definition Discontinued :: State where
  "Discontinued = ''Discontinued''"

record DeprecatedFeatureGate =
  Name :: string
  State :: State
  Message :: string

text \<open>
  The names of the gates are constants declared in another file of the package: the
  fields of a record the model is given.
\<close>

record gateNames =
  LiveMigrationGate :: string
  SRIOVLiveMigrationGate :: string
  NonRoot :: string
  PSA :: string
  CPUNodeDiscoveryGate :: string
  PasstGate :: string

text \<open>The array literal, and \<open>init\<close>, which fills in the messages left empty.\<close>

definition featureGates_literal :: "gateNames \<Rightarrow> DeprecatedFeatureGate list" where
  "featureGates_literal g =
     [\<lparr>Name = LiveMigrationGate g, State = GA, Message = ''''\<rparr>,
      \<lparr>Name = SRIOVLiveMigrationGate g, State = GA, Message = ''''\<rparr>,
      \<lparr>Name = NonRoot g, State = GA, Message = ''''\<rparr>,
      \<lparr>Name = PSA g, State = GA, Message = ''''\<rparr>,
      \<lparr>Name = CPUNodeDiscoveryGate g, State = GA, Message = ''''\<rparr>,
      \<lparr>Name = PasstGate g, State = Deprecated,
       Message = ''Passt network binding will be deprecated next release. Please refer to Kubevirt user guide for alternatives.''\<rparr>]"

definition warningPattern :: "string \<Rightarrow> string" where
  "warningPattern n =
     ''feature gate '' @ n @ '' is deprecated, therefore it can be safely removed and is redundant. '' @
     ''For more info, please look at: https://github.com/kubevirt/kubevirt/blob/main/docs/deprecation.md''"

fun init :: "DeprecatedFeatureGate list \<Rightarrow> DeprecatedFeatureGate list" where
  "init [] = []"
| "init (fg # fgs) =
     (if Message fg = '''' then fg\<lparr>Message := warningPattern (Name fg)\<rparr> else fg) # init fgs"

definition featureGates :: "gateNames \<Rightarrow> DeprecatedFeatureGate list" where
  "featureGates g = init (featureGates_literal g)"

text \<open>\<open>DeprecatedFeatureGateInfo\<close>: the first entry of the table with the name, or \<open>nil\<close>.\<close>

fun DeprecatedFeatureGateInfo ::
  "DeprecatedFeatureGate list \<Rightarrow> string \<Rightarrow> DeprecatedFeatureGate option" where
  "DeprecatedFeatureGateInfo [] featureGate = None"
| "DeprecatedFeatureGateInfo (deprecatedFeature # rest) featureGate =
     (if featureGate = Name deprecatedFeature then Some deprecatedFeature
      else DeprecatedFeatureGateInfo rest featureGate)"

text \<open>
  The cluster configuration, as far as \<open>isFeatureGateEnabled\<close> reads it:
  \<open>config.GetConfig().DeveloperConfiguration.FeatureGates\<close>. The types and \<open>GetConfig\<close>
  are declared in other files of the package; \<open>GetConfig\<close> is the field that holds what
  the method returns.
\<close>

record DeveloperConfiguration =
  FeatureGates :: "string list"

record KubeVirtConfiguration =
  DeveloperConfiguration :: DeveloperConfiguration

record ClusterConfig =
  GetConfig :: KubeVirtConfiguration

text \<open>The loop at the end of \<open>isFeatureGateEnabled\<close>.\<close>

fun listedGate :: "string list \<Rightarrow> string \<Rightarrow> bool" where
  "listedGate [] featureGate = False"
| "listedGate (fg # fgs) featureGate = (if fg = featureGate then True else listedGate fgs featureGate)"

definition isFeatureGateEnabled ::
  "DeprecatedFeatureGate list \<Rightarrow> ClusterConfig \<Rightarrow> string \<Rightarrow> bool" where
  "isFeatureGateEnabled table config featureGate =
     (let enabledByConfig =
            listedGate (FeatureGates (DeveloperConfiguration (GetConfig config))) featureGate
      in case DeprecatedFeatureGateInfo table featureGate of
           Some deprectedFeature \<Rightarrow>
             (if State deprectedFeature = GA then True
              else if State deprectedFeature = Discontinued then False
              else enabledByConfig)
         | None \<Rightarrow> enabledByConfig)"

section \<open>Lines of the exposition\<close>

text \<open>
  The pieces of a line are those of \<open>strings.Split(line, " ")\<close>: the third is
  \<open>Split line ! 2\<close>. A help line qualifies when \<open>parseVirtMetrics\<close> takes it up: it
  begins with \<open># HELP\<close> and a space, and contains \<open>kubevirt_\<close>. A type line for a
  name begins with \<open># TYPE\<close> and a space and has the name as its third piece.
\<close>

definition qualifies :: "string \<Rightarrow> bool" where
  "qualifies line = (HasPrefix line ''# HELP '' \<and> Contains line filter_str)"

definition typeLineFor :: "string \<Rightarrow> string \<Rightarrow> bool" where
  "typeLineFor n line = (HasPrefix line ''# TYPE '' \<and> Split line ! 2 = n)"




text \<open>
  What the scan needs of the lines is less: \<open>wellFormed\<close> asks for the four pieces only of
  the qualifying help lines and of the type lines that answer them. \<open>typedFirst n ls\<close>
  looks for the type line in the lines \<open>ls\<close> after the help line for \<open>n\<close>.
\<close>

fun typedFirst :: "string \<Rightarrow> string list \<Rightarrow> bool" where
  "typedFirst n [] = False"
| "typedFirst n (l # ls) =
     (if typeLineFor n l then 4 \<le> length (Split l) else \<not> qualifies l \<and> typedFirst n ls)"

fun wellFormed :: "string list \<Rightarrow> bool" where
  "wellFormed [] = True"
| "wellFormed (l # ls) =
     ((if qualifies l then 4 \<le> length (Split l) \<and> typedFirst (Split l ! 2) ls else True) \<and>
      wellFormed ls)"

section \<open>Example inputs\<close>

text \<open>
  Values for the constants of other packages, and a table and two configurations, on which
  the theorems below are instantiated.
\<close>

definition exampleGates :: gateNames where
  "exampleGates =
     \<lparr>LiveMigrationGate = ''LiveMigration'', SRIOVLiveMigrationGate = ''SRIOVLiveMigration'',
      NonRoot = ''NonRoot'', PSA = ''PSA'', CPUNodeDiscoveryGate = ''CPUNodeDiscovery'',
      PasstGate = ''Passt''\<rparr>"

definition exampleTable :: "DeprecatedFeatureGate list" where
  "exampleTable =
     featureGates exampleGates @ [\<lparr>Name = ''Retired'', State = Discontinued, Message = ''gone''\<rparr>]"

definition exampleConfig :: "string list \<Rightarrow> ClusterConfig" where
  "exampleConfig gates =
     \<lparr>GetConfig = \<lparr>DeveloperConfiguration = \<lparr>FeatureGates = gates\<rparr>\<rparr>\<rparr>"

text \<open>
  A function for the parameter \<open>srt\<close>: insertion sort by name. And a second one, which
  sorts the reversed slice, so that entries of one name change places.
\<close>

definition nameSort :: "metricList \<Rightarrow> metricList" where
  "nameSort m = sort_key name m"


definition exampleDomainstats :: domainstats where
  "exampleDomainstats =
     \<lparr>MigrateVmiDataProcessedMetricName = ''kubevirt_migrate_vmi_data_processed_bytes'',
      MigrateVmiDataRemainingMetricName = ''kubevirt_migrate_vmi_data_remaining_bytes'',
      MigrateVmiDirtyMemoryRateMetricName = ''kubevirt_migrate_vmi_dirty_memory_rate_bytes'',
      MigrateVmiMemoryTransferRateMetricName = ''kubevirt_migrate_vmi_memory_transfer_rate_bytes'',
      MigrateVmiDiskTransferRateMetricName = ''kubevirt_migrate_vmi_disk_transfer_rate_bytes''\<rparr>"

definition exampleRules :: "RecordingRule list" where
  "exampleRules =
     [\<lparr>Rule = \<lparr>Record = ''kubevirt_virt_api_up_total''\<rparr>,
       Description = ''The total number of virt-api pods that are up.'',
       MType = ''gauge''\<rparr>]"

definition exampleBody :: "string list" where
  "exampleBody =
     [''# HELP kubevirt_vmi_count some vm count.'',
      ''# TYPE kubevirt_vmi_count gauge'',
      ''kubevirt_vmi_count 3'',
      ''# HELP go_goroutines Number of goroutines that currently exist.'',
      ''# TYPE go_goroutines gauge'',
      ''go_goroutines 42'',
      ''# HELP kubevirt_info Version information'',
      ''# TYPE kubevirt_info gauge'']"

text \<open>
  The two descriptors \<open>exampleBody\<close> gives, and the catalog of a run over it with the
  example constants and rules.
\<close>

definition exampleParsed :: metricList where
  "exampleParsed =
     [\<lparr>name = ''kubevirt_vmi_count'', description = ''Some vm count.'', mType = ''Gauge''\<rparr>,
      \<lparr>name = ''kubevirt_info'', description = ''Version information'', mType = ''Gauge''\<rparr>]"

definition exampleCatalog :: metricList where
  "exampleCatalog =
     nameSort (staticMetrics exampleDomainstats @ map ruleMetric exampleRules @ exampleParsed)"



section \<open>Facts about the string functions\<close>

text \<open>
  The order of strings is the order of Go: byte by byte, capitals before small letters, a
  proper prefix before the longer string.
\<close>

lemma string_order_examples:
  "''kubevirt_vmi'' < ''kubevirt_vmi_count'' \<and> ''kubevirt_vmi_count'' < ''kubevirt_vmi_phase'' \<and>
   ''Kubevirt'' < ''kubevirt'' \<and> \<not> ''b'' < ''a''"
  by simp

lemma HasPrefix_iff: "HasPrefix s pre \<longleftrightarrow> (\<exists>t. s = pre @ t)"
  unfolding HasPrefix_def
  by (metis append_eq_conv_conj append_take_drop_id le_add1 length_append)

lemma Contains_iff: "Contains s sub \<longleftrightarrow> (\<exists>a c. s = a @ sub @ c)"
proof (induction s)
  case Nil
  then show ?case by auto
next
  case (Cons x s)
  show ?case
  proof
    assume "Contains (x # s) sub"
    then consider "HasPrefix (x # s) sub" | "Contains s sub" by auto
    then show "\<exists>a c. x # s = a @ sub @ c"
    proof cases
      case 1
      then obtain t where "x # s = sub @ t" by (auto simp: HasPrefix_iff)
      then have "x # s = [] @ sub @ t" by simp
      then show ?thesis by blast
    next
      case 2
      then obtain a c where "s = a @ sub @ c" using Cons.IH by blast
      then have "x # s = (x # a) @ sub @ c" by simp
      then show ?thesis by blast
    qed
  next
    assume "\<exists>a c. x # s = a @ sub @ c"
    then obtain a c where ac: "x # s = a @ sub @ c" by blast
    show "Contains (x # s) sub"
    proof (cases a)
      case Nil
      with ac have "HasPrefix (x # s) sub" by (auto simp: HasPrefix_iff)
      then show ?thesis by simp
    next
      case (Cons y a')
      with ac have "s = a' @ sub @ c" by simp
      then have "Contains s sub" using Cons.IH by blast
      then show ?thesis by simp
    qed
  qed
qed

lemma Contains_middle: "Contains (a @ sub @ c) sub"
  unfolding Contains_iff by blast

section \<open>Facts about the parser\<close>

text \<open>
  A line with a prefix of two spaces has three pieces at least: after the test of the
  prefix, \<open>split[2]\<close> is always there, and only \<open>split[3]\<close> can be missing.
\<close>

lemma length_SplitFrom: "length (SplitFrom tok s) = Suc (count_list s (CHR '' ''))"
  by (induction s arbitrary: tok) auto

lemma length_Split: "length (Split s) = Suc (count_list s (CHR '' ''))"
  by (simp add: Split_def length_SplitFrom)

lemma count_list_append': "count_list (a @ b) x = count_list a x + count_list b x"
  by (induction a) auto

lemma HasPrefix_TYPE_length: "HasPrefix l ''# TYPE '' \<Longrightarrow> 3 \<le> length (Split l)"
  by (auto simp: HasPrefix_iff length_Split)

lemma HasPrefix_HELP_length: "HasPrefix l ''# HELP '' \<Longrightarrow> 3 \<le> length (Split l)"
  by (auto simp: HasPrefix_iff length_Split)

lemma HELP_not_TYPE: "HasPrefix l ''# HELP '' \<Longrightarrow> \<not> HasPrefix l ''# TYPE ''"
  by (auto simp: HasPrefix_iff)

lemma qualifies_not_typeLineFor: "qualifies l \<Longrightarrow> \<not> typeLineFor n l"
  by (simp add: qualifies_def typeLineFor_def HELP_not_TYPE)

text \<open>
  A piece of a line is a part of the line, so a name that contains \<open>kubevirt_\<close> makes
  its line contain it: the test of the whole line passes every help line that a test of
  the name would pass, and others.
\<close>

lemma SplitFrom_piece:
  "p \<in> set (SplitFrom tok s) \<Longrightarrow> \<exists>a b. tok @ s = a @ p @ b"
proof (induction s arbitrary: tok)
  case Nil
  then have "tok @ [] = [] @ p @ []" by simp
  then show ?case by blast
next
  case (Cons c s)
  show ?case
  proof (cases "c = CHR '' ''")
    case True
    with Cons.prems consider "p = tok" | "p \<in> set (SplitFrom [] s)" by auto
    then show ?thesis
    proof cases
      case 1
      then have "tok @ c # s = [] @ p @ (c # s)" by simp
      then show ?thesis by blast
    next
      case 2
      from Cons.IH [OF this] obtain a b where "s = a @ p @ b" by auto
      then have "tok @ c # s = (tok @ c # a) @ p @ b" by simp
      then show ?thesis by blast
    qed
  next
    case False
    with Cons.prems have "p \<in> set (SplitFrom (tok @ [c]) s)" by simp
    from Cons.IH [OF this] show ?thesis by simp
  qed
qed

lemma Contains_trans: "Contains s t \<Longrightarrow> Contains t u \<Longrightarrow> Contains s u"
proof -
  assume "Contains s t" "Contains t u"
  then obtain a b c d where "s = a @ t @ b" "t = c @ u @ d"
    by (auto simp: Contains_iff)
  then have "s = (a @ c) @ u @ (d @ b)" by simp
  then show ?thesis unfolding Contains_iff by blast
qed

lemma name_filter_implies_line_filter:
  assumes "HasPrefix l ''# HELP ''" and "Contains (Split l ! 2) filter_str"
  shows "Contains l filter_str"
proof -
  from assms(1) have "2 < length (Split l)"
    using HasPrefix_HELP_length [of l] by simp
  then have "Split l ! 2 \<in> set (Split l)" by simp
  then obtain a b where "l = a @ Split l ! 2 @ b"
    using SplitFrom_piece [of "Split l ! 2" "[]" l] by (auto simp: Split_def)
  then have "Contains l (Split l ! 2)"
    unfolding Contains_iff by blast
  then show ?thesis using assms(2) by (rule Contains_trans)
qed

text \<open>One turn of the loop of \<open>parseMetricType\<close>, and of the loop of \<open>parseVirtMetrics\<close>.\<close>

lemma parseMetricType_skip:
  "\<not> typeLineFor n l \<Longrightarrow> parseMetricType (l # scan) n = parseMetricType scan n"
  using HasPrefix_TYPE_length [of l]
  by (auto simp: typeLineFor_def Let_def)

lemma parseMetricType_hit:
  "typeLineFor n l \<Longrightarrow> 4 \<le> length (Split l) \<Longrightarrow>
     parseMetricType (l # scan) n = Inr (Title (Split l ! 3), scan)"
  by (simp add: typeLineFor_def Let_def)

lemma parseMetricType_hit_short:
  "typeLineFor n l \<Longrightarrow> length (Split l) < 4 \<Longrightarrow>
     parseMetricType (l # scan) n = Inl (IndexOutOfRange 3 (length (Split l)))"
  using HasPrefix_TYPE_length [of l]
  by (auto simp: typeLineFor_def Let_def)

declare parseMetricType.simps(2) [simp del]

lemma parseMetricType_skip_all:
  "\<forall>l \<in> set mid. \<not> typeLineFor n l \<Longrightarrow> parseMetricType (mid @ scan) n = parseMetricType scan n"
  by (induction mid) (simp_all add: parseMetricType_skip)

lemma parseMetricType_none:
  "\<forall>l \<in> set scan. \<not> typeLineFor n l \<Longrightarrow> parseMetricType scan n = Inr ('''', [])"
  using parseMetricType_skip_all [of scan n "[]"] by simp

lemma parseMetricType_found_append:
  "\<exists>l \<in> set a. typeLineFor n l \<Longrightarrow>
     parseMetricType (a @ b) n =
       (case parseMetricType a n of Inl p \<Rightarrow> Inl p | Inr (ty, a') \<Rightarrow> Inr (ty, a' @ b))"
proof (induction a)
  case Nil
  then show ?case by simp
next
  case (Cons l a)
  show ?case
  proof (cases "typeLineFor n l")
    case True
    then show ?thesis
      using HasPrefix_TYPE_length [of l]
      by (auto simp: typeLineFor_def Let_def parseMetricType.simps(2))
  next
    case False
    with Cons.prems have "\<exists>l \<in> set a. typeLineFor n l" by auto
    with Cons.IH False show ?thesis by (simp add: parseMetricType_skip)
  qed
qed

lemma scanMetrics_skip:
  "\<not> qualifies l \<Longrightarrow> scanMetrics (l # scan) ms = scanMetrics scan ms"
  by (auto simp: qualifies_def)

lemma scanMetrics_qualifies:
  "qualifies l \<Longrightarrow>
   scanMetrics (l # scan) ms =
     (case parseMetricDesc l of
        Inl p \<Rightarrow> Inl p
      | Inr (metName, metDesc) \<Rightarrow>
          (case parseMetricType scan metName of
             Inl p \<Rightarrow> Inl p
           | Inr (metType, scan') \<Rightarrow>
               scanMetrics scan'
                 (ms @ [\<lparr>name = metName, description = metDesc, mType = metType\<rparr>])))"
  by (auto simp: qualifies_def)

declare scanMetrics.simps(2) [simp del]

lemma scanMetrics_drop_line:
  assumes l: "\<not> qualifies l" "\<not> HasPrefix l ''# TYPE ''"
  shows "scanMetrics (pre @ l # post) ms = scanMetrics (pre @ post) ms"
proof (induction "length pre" arbitrary: pre ms rule: less_induct)
  case less
  show ?case
  proof (cases pre)
    case Nil
    then show ?thesis using l by (simp add: scanMetrics_skip)
  next
    case (Cons h a)
    show ?thesis
    proof (cases "qualifies h")
      case False
      then show ?thesis using Cons less [of a ms] by (simp add: scanMetrics_skip)
    next
      case True
      show ?thesis
      proof (cases "parseMetricDesc h")
        case (Inl p)
        then show ?thesis using Cons True by (simp add: scanMetrics_qualifies)
      next
        case (Inr nd)
        obtain n d where nd: "nd = (n, d)" by (cases nd)
        have nl: "\<not> typeLineFor n l" using l by (simp add: typeLineFor_def)
        show ?thesis
        proof (cases "\<exists>t \<in> set a. typeLineFor n t")
          case found: True
          show ?thesis
          proof (cases "parseMetricType a n")
            case (Inl p)
            then show ?thesis
              using Cons True Inr nd found
              by (simp add: scanMetrics_qualifies parseMetricType_found_append)
          next
            case (Inr r)
            obtain ty a' where r: "r = (ty, a')" by (cases r)
            have "length a' \<le> length a"
              using Inr r parseMetricType_length by blast
            then have "length a' < length pre" using Cons by simp
            from less [OF this]
            have "scanMetrics (a' @ l # post) ms' = scanMetrics (a' @ post) ms'" for ms' .
            then show ?thesis
              using Cons True \<open>parseMetricDesc h = Inr nd\<close> nd found Inr r
              by (simp add: scanMetrics_qualifies parseMetricType_found_append)
          qed
        next
          case notfound: False
          then have "\<forall>t \<in> set a. \<not> typeLineFor n t" by blast
          then have "parseMetricType (a @ l # post) n = parseMetricType post n"
            "parseMetricType (a @ post) n = parseMetricType post n"
            using nl by (simp_all add: parseMetricType_skip_all parseMetricType_skip)
          then show ?thesis
            using Cons True Inr nd by (simp add: scanMetrics_qualifies)
        qed
      qed
    qed
  qed
qed

lemma scanMetrics_acc:
  "scanMetrics scan ms =
     (case scanMetrics scan [] of Inl p \<Rightarrow> Inl p | Inr ds \<Rightarrow> Inr (ms @ ds))"
proof (induction "length scan" arbitrary: scan ms rule: less_induct)
  case less
  show ?case
  proof (cases scan)
    case Nil
    then show ?thesis by simp
  next
    case (Cons h a)
    show ?thesis
    proof (cases "qualifies h")
      case False
      then show ?thesis using Cons less [of a ms] by (simp add: scanMetrics_skip)
    next
      case True
      show ?thesis
      proof (cases "parseMetricDesc h")
        case (Inl p)
        then show ?thesis using Cons True by (simp add: scanMetrics_qualifies)
      next
        case (Inr nd)
        obtain n d where nd: "nd = (n, d)" by (cases nd)
        show ?thesis
        proof (cases "parseMetricType a n")
          case (Inl p)
          then show ?thesis
            using Cons True \<open>parseMetricDesc h = Inr nd\<close> nd
            by (simp add: scanMetrics_qualifies)
        next
          case r: (Inr r)
          obtain ty a' where r': "r = (ty, a')" by (cases r)
          have "length a' < length scan"
            using r r' parseMetricType_length [of a n ty a'] Cons by simp
          from less [OF this]
          have IH: "scanMetrics a' ms' =
            (case scanMetrics a' [] of Inl p \<Rightarrow> Inl p | Inr ds \<Rightarrow> Inr (ms' @ ds))" for ms' .
          show ?thesis
            using Cons True Inr nd r r'
            by (simp add: scanMetrics_qualifies IH [of "ms @ _"] IH [of "[_]"] split: sum.splits)
        qed
      qed
    qed
  qed
qed

lemma typedFirst_split:
  "typedFirst n ls \<Longrightarrow>
     \<exists>mid t post. ls = mid @ t # post \<and> (\<forall>l \<in> set mid. \<not> typeLineFor n l \<and> \<not> qualifies l) \<and>
        typeLineFor n t \<and> 4 \<le> length (Split t)"
proof (induction ls)
  case Nil
  then show ?case by simp
next
  case (Cons l ls)
  show ?case
  proof (cases "typeLineFor n l")
    case True
    with Cons.prems have "l # ls = [] @ l # ls \<and> (\<forall>x \<in> set []. \<not> typeLineFor n x \<and> \<not> qualifies x) \<and>
        typeLineFor n l \<and> 4 \<le> length (Split l)" by simp
    then show ?thesis by blast
  next
    case False
    with Cons.prems have q: "\<not> qualifies l" and "typedFirst n ls" by simp_all
    with Cons.IH obtain mid t post where
      *: "ls = mid @ t # post" "\<forall>x \<in> set mid. \<not> typeLineFor n x \<and> \<not> qualifies x"
         "typeLineFor n t" "4 \<le> length (Split t)" by blast
    with False q have "l # ls = (l # mid) @ t # post \<and>
        (\<forall>x \<in> set (l # mid). \<not> typeLineFor n x \<and> \<not> qualifies x) \<and>
        typeLineFor n t \<and> 4 \<le> length (Split t)" by simp
    then show ?thesis by blast
  qed
qed

lemma wellFormed_suffix: "wellFormed (a @ b) \<Longrightarrow> wellFormed b"
  by (induction a) simp_all

lemma parseMetricDesc_long:
  "4 \<le> length (Split l) \<Longrightarrow>
     parseMetricDesc l =
       Inr (Split l ! 2, Join (drop 3 ((Split l)[3 := Title (Split l ! 3)])) '' '')"
  by (simp add: parseMetricDesc_def Let_def)

lemma typeLine_not_qualifies: "typeLineFor n t \<Longrightarrow> \<not> qualifies t"
  using qualifies_not_typeLineFor by blast

lemma scanMetrics_wellFormed:
  "wellFormed pre \<Longrightarrow>
     \<exists>ds. map name ds = map (\<lambda>l. Split l ! 2) (filter qualifies pre) \<and>
          (\<forall>post ms. scanMetrics (pre @ post) ms = scanMetrics post (ms @ ds))"
proof (induction "length pre" arbitrary: pre rule: less_induct)
  case less
  show ?case
  proof (cases pre)
    case Nil
    then show ?thesis by simp
  next
    case (Cons h a)
    with less.prems have wa: "wellFormed a" by simp
    show ?thesis
    proof (cases "qualifies h")
      case False
      from less.hyps [of a] wa Cons obtain ds where
        "map name ds = map (\<lambda>l. Split l ! 2) (filter qualifies a)"
        "\<forall>post ms. scanMetrics (a @ post) ms = scanMetrics post (ms @ ds)" by auto
      with False Cons show ?thesis by (auto simp: scanMetrics_skip)
    next
      case True
      let ?n = "Split h ! 2"
      from True less.prems Cons have len: "4 \<le> length (Split h)" and tf: "typedFirst ?n a"
        by simp_all
      from typedFirst_split [OF tf] obtain mid t rest where
        a: "a = mid @ t # rest" and mid: "\<forall>l \<in> set mid. \<not> typeLineFor ?n l \<and> \<not> qualifies l"
        and t: "typeLineFor ?n t" "4 \<le> length (Split t)" by blast
      have "wellFormed rest"
        using wa a wellFormed_suffix [of "mid @ [t]" rest] by simp
      moreover have "length rest < length pre" using a Cons by simp
      ultimately obtain ds where
        ds: "map name ds = map (\<lambda>l. Split l ! 2) (filter qualifies rest)"
        "\<forall>post ms. scanMetrics (rest @ post) ms = scanMetrics post (ms @ ds)"
        using less.hyps [of rest] by auto
      let ?m = "\<lparr>name = ?n,
          description = Join (drop 3 ((Split h)[3 := Title (Split h ! 3)])) '' '',
          mType = Title (Split t ! 3)\<rparr>"
      have ty: "parseMetricType (a @ post) ?n = Inr (Title (Split t ! 3), rest @ post)" for post
        using a mid t parseMetricType_skip_all [of mid ?n "t # rest @ post"]
        by (simp add: parseMetricType_hit)
      have step: "scanMetrics (pre @ post) ms = scanMetrics post (ms @ ?m # ds)" for post ms
        using Cons True ty ds(2) by (simp add: scanMetrics_qualifies parseMetricDesc_long [OF len])
      have "filter qualifies pre = h # filter qualifies rest"
        using Cons True a mid t(1) by (simp add: typeLine_not_qualifies)
      then have "map name (?m # ds) = map (\<lambda>l. Split l ! 2) (filter qualifies pre)"
        using ds(1) by simp
      with step show ?thesis by blast
    qed
  qed
qed



lemma parseVirtMetrics_pair:
  "parseVirtMetrics srt (ls, e) ms =
     (case scanMetrics ls ms of
        Inl p \<Rightarrow> Inl p
      | Inr ms' \<Rightarrow>
          (case e of
             Some x \<Rightarrow> Inr (Some (''failed to parse metrics from prometheus endpoint, '' @ x), ms')
           | None \<Rightarrow> Inr (None, srt ms')))"
  by (simp add: parseVirtMetrics_def split: sum.splits)

section \<open>Index panics of the parser\<close>

text \<open>
  C4: there are lines that begin with \<open># HELP\<close> and a space and contain \<open>kubevirt_\<close>
  but have fewer than four pieces, and on every such line \<open>parseMetricDesc\<close> panics with
  an index out of range, at index 3 of the three pieces there are; \<open>parseVirtMetrics\<close>
  neither skips the line nor returns an error, the panic is its outcome. The read of
  \<open>split[2]\<close> is not guarded either: \<open>parseMetricDesc\<close> panics at index 2 on a line of
  fewer than three pieces.
\<close>

theorem parseMetricDesc_short_line_panics:
  "(\<exists>line. HasPrefix line ''# HELP '' \<and> Contains line filter_str \<and> length (Split line) < 4) \<and>
   (\<forall>line srt scan e metrics.
      HasPrefix line ''# HELP '' \<and> Contains line filter_str \<and> length (Split line) < 4 \<longrightarrow>
      parseMetricDesc line = Inl (IndexOutOfRange 3 3) \<and>
      parseVirtMetrics srt (line # scan, e) metrics = Inl (IndexOutOfRange 3 3)) \<and>
   (\<forall>line. length (Split line) < 3 \<longrightarrow>
      parseMetricDesc line = Inl (IndexOutOfRange 2 (length (Split line))))"
proof (intro conjI allI impI)
  let ?line = "''# HELP kubevirt_vmi_count''"
  have "HasPrefix ?line ''# HELP '' \<and> Contains ?line filter_str \<and> length (Split ?line) < 4"
    by code_simp
  then show "\<exists>line. HasPrefix line ''# HELP '' \<and> Contains line filter_str \<and> length (Split line) < 4"
    by (rule exI)
next
  fix line srt scan e metrics
  assume a: "HasPrefix line ''# HELP '' \<and> Contains line filter_str \<and> length (Split line) < 4"
  then have "3 \<le> length (Split line)"
    by (simp add: HasPrefix_HELP_length)
  with a have three: "length (Split line) = 3"
    by simp
  then show desc: "parseMetricDesc line = Inl (IndexOutOfRange 3 3)"
    by (simp add: parseMetricDesc_def)
  from a have "qualifies line"
    by (simp add: qualifies_def)
  then show "parseVirtMetrics srt (line # scan, e) metrics = Inl (IndexOutOfRange 3 3)"
    by (simp add: parseVirtMetrics_pair scanMetrics_qualifies desc)
next
  fix line
  assume "length (Split line) < 3"
  then show "parseMetricDesc line = Inl (IndexOutOfRange 2 (length (Split line)))"
    by (simp add: parseMetricDesc_def)
qed

theorem parseMetricDesc_short_line_panics_witness:
  "parseMetricDesc ''# HELP kubevirt_'' = Inl (IndexOutOfRange 3 3) \<and>
   parseVirtMetrics nameSort
     ([''# HELP kubevirt_'', ''# TYPE kubevirt_ gauge''], None) [] = Inl (IndexOutOfRange 3 3) \<and>
   parseMetricDesc ''# HELP'' = Inl (IndexOutOfRange 2 2)"
proof -
  have short: "HasPrefix ''# HELP kubevirt_'' ''# HELP '' \<and>
      Contains ''# HELP kubevirt_'' filter_str \<and> length (Split ''# HELP kubevirt_'') < 4"
    by code_simp
  have shorter: "length (Split ''# HELP'') < 3" "length (Split ''# HELP'') = 2"
    by code_simp+
  from parseMetricDesc_short_line_panics short shorter(1)
  have "parseMetricDesc ''# HELP kubevirt_'' = Inl (IndexOutOfRange 3 3)"
    "parseVirtMetrics nameSort
       ([''# HELP kubevirt_'', ''# TYPE kubevirt_ gauge''], None) [] = Inl (IndexOutOfRange 3 3)"
    "parseMetricDesc ''# HELP'' = Inl (IndexOutOfRange 2 (length (Split ''# HELP'')))"
    by blast+
  then show ?thesis
    by (simp add: shorter(2))
qed

section \<open>What the parser extracts\<close>



text \<open>
  C2 says that a help line whose name, the third piece, does not contain \<open>kubevirt_\<close>
  gives no descriptor whatever the rest of the line is. The code tests the whole line
  (\<open>strings.Contains(helpLine, filter)\<close>), so a line whose description mentions
  \<open>kubevirt_\<close> passes: here is one, with the descriptor it gives.
\<close>

theorem filter_reads_whole_line_counterexample:
  "HasPrefix ''# HELP other_metric_x about kubevirt_ things'' ''# HELP '' \<and>
   \<not> Contains (Split ''# HELP other_metric_x about kubevirt_ things'' ! 2) filter_str \<and>
   parseVirtMetrics nameSort ([''# HELP other_metric_x about kubevirt_ things''], None) [] =
     Inr (None, [\<lparr>name = ''other_metric_x'', description = ''About kubevirt_ things'',
                  mType = ''''\<rparr>])"
  by code_simp

text \<open>
  C2 as amended: a line that begins with \<open># HELP\<close> and a space and does not contain
  \<open>kubevirt_\<close> anywhere, in the name or after it, gives no descriptor and has no effect
  at all: wherever it stands, the outcome of \<open>parseVirtMetrics\<close> is the outcome without
  the line.
\<close>

theorem help_line_without_filter_ignored:
  "HasPrefix l ''# HELP '' \<Longrightarrow> \<not> Contains l filter_str \<Longrightarrow>
     parseVirtMetrics srt (pre @ l # post, e) metrics =
     parseVirtMetrics srt (pre @ post, e) metrics"
proof -
  assume hp: "HasPrefix l ''# HELP ''" and nofilter: "\<not> Contains l filter_str"
  from nofilter have "\<not> qualifies l"
    by (simp add: qualifies_def)
  moreover from hp have "\<not> HasPrefix l ''# TYPE ''"
    by (rule HELP_not_TYPE)
  ultimately have "scanMetrics (pre @ l # post) metrics = scanMetrics (pre @ post) metrics"
    by (rule scanMetrics_drop_line)
  then show ?thesis
    by (simp add: parseVirtMetrics_pair)
qed

theorem help_line_without_filter_ignored_witness:
  "HasPrefix ''# HELP other_metric_x desc.'' ''# HELP '' \<and>
   \<not> Contains ''# HELP other_metric_x desc.'' filter_str \<and>
   parseVirtMetrics nameSort
     ([''# HELP kubevirt_vmi_count some vm count.'', ''# HELP other_metric_x desc.'',
       ''# TYPE kubevirt_vmi_count gauge''], None) [] =
   parseVirtMetrics nameSort
     ([''# HELP kubevirt_vmi_count some vm count.'', ''# TYPE kubevirt_vmi_count gauge''], None) []"
proof -
  have hp: "HasPrefix ''# HELP other_metric_x desc.'' ''# HELP ''"
    by code_simp
  have nofilter: "\<not> Contains ''# HELP other_metric_x desc.'' filter_str"
    by code_simp
  show ?thesis
    using hp nofilter
      help_line_without_filter_ignored [OF hp nofilter, of nameSort
        "[''# HELP kubevirt_vmi_count some vm count.'']" "[''# TYPE kubevirt_vmi_count gauge'']"
        None "[]"]
    by simp
qed

text \<open>
  C3 speaks of every qualifying help line. The search for a type line reads on in the
  scanner the loop of \<open>parseVirtMetrics\<close> reads from, so a help line that still waits for
  its type line takes the lines after it, qualifying help lines too. In both bodies here
  the type line of \<open>kubevirt_a\<close> comes last, and the help line of \<open>kubevirt_b\<close> before
  it qualifies and gives no descriptor: in the first body no type line for its name
  follows it, in the second one does. And a type line for the name that has no fourth
  piece ends the run in a panic.
\<close>

theorem help_line_taken_by_search_counterexample:
  "qualifies ''# HELP kubevirt_b second.'' \<and>
   parseMetricDesc ''# HELP kubevirt_b second.'' = Inr (''kubevirt_b'', ''Second.'') \<and>
   parseVirtMetrics nameSort
     ([''# HELP kubevirt_a first.'', ''# HELP kubevirt_b second.'',
       ''# TYPE kubevirt_a counter''], None) [] =
     Inr (None, [\<lparr>name = ''kubevirt_a'', description = ''First.'', mType = ''Counter''\<rparr>]) \<and>
   typeLineFor ''kubevirt_b'' ''# TYPE kubevirt_b gauge'' \<and>
   parseVirtMetrics nameSort
     ([''# HELP kubevirt_a first.'', ''# HELP kubevirt_b second.'',
       ''# TYPE kubevirt_b gauge'', ''# TYPE kubevirt_a counter''], None) [] =
     Inr (None, [\<lparr>name = ''kubevirt_a'', description = ''First.'', mType = ''Counter''\<rparr>]) \<and>
   typeLineFor ''kubevirt_b'' ''# TYPE kubevirt_b'' \<and>
   parseVirtMetrics nameSort
     ([''# HELP kubevirt_b second.'', ''# TYPE kubevirt_b''], None) [] =
     Inl (IndexOutOfRange 3 3)"
  by code_simp

text \<open>
  C3 as amended: let a qualifying help line, with the name \<open>n\<close> and the description \<open>d\<close>
  that \<open>parseMetricDesc\<close> reads from it, be a line the loop of \<open>parseVirtMetrics\<close> comes
  to: the lines left in the scanner are this line and the lines after it, and \<open>metrics\<close>
  is what has been collected. If a type line for \<open>n\<close> follows, the first such line being
  \<open>t\<close> (no line of \<open>mid\<close> is one) with its four pieces, the descriptor appended has the
  title-cased fourth piece of \<open>t\<close> as its type, and the loop goes on after \<open>t\<close>. If no
  type line for \<open>n\<close> follows, the descriptor is appended with the empty type and the
  scanner is at its end: this is no error, with a scanner that ends without one
  \<open>parseVirtMetrics\<close> returns \<open>nil\<close> and leaves the sorted slice.
\<close>

theorem descriptor_type_from_first_type_line:
  assumes "qualifies helpLine" and "parseMetricDesc helpLine = Inr (n, d)"
  shows "((\<forall>l \<in> set mid. \<not> typeLineFor n l) \<and> typeLineFor n t \<and> 4 \<le> length (Split t) \<longrightarrow>
           parseVirtMetrics srt (helpLine # mid @ t # post, e) metrics =
           parseVirtMetrics srt (post, e)
             (metrics @ [\<lparr>name = n, description = d, mType = Title (Split t ! 3)\<rparr>])) \<and>
         ((\<forall>l \<in> set rest. \<not> typeLineFor n l) \<longrightarrow>
           parseVirtMetrics srt (helpLine # rest, e) metrics =
           parseVirtMetrics srt ([], e) (metrics @ [\<lparr>name = n, description = d, mType = ''''\<rparr>]) \<and>
           parseVirtMetrics srt (helpLine # rest, None) metrics =
           Inr (None, srt (metrics @ [\<lparr>name = n, description = d, mType = ''''\<rparr>])))"
proof (intro conjI impI)
  assume h: "(\<forall>l \<in> set mid. \<not> typeLineFor n l) \<and> typeLineFor n t \<and> 4 \<le> length (Split t)"
  then have "parseMetricType (mid @ t # post) n = Inr (Title (Split t ! 3), post)"
    by (simp add: parseMetricType_skip_all parseMetricType_hit)
  with assms show "parseVirtMetrics srt (helpLine # mid @ t # post, e) metrics =
         parseVirtMetrics srt (post, e)
           (metrics @ [\<lparr>name = n, description = d, mType = Title (Split t ! 3)\<rparr>])"
    by (simp add: parseVirtMetrics_pair scanMetrics_qualifies)
next
  assume "\<forall>l \<in> set rest. \<not> typeLineFor n l"
  then have none: "parseMetricType rest n = Inr ('''', [])"
    by (rule parseMetricType_none)
  with assms show "parseVirtMetrics srt (helpLine # rest, e) metrics =
         parseVirtMetrics srt ([], e) (metrics @ [\<lparr>name = n, description = d, mType = ''''\<rparr>])"
    by (simp add: parseVirtMetrics_pair scanMetrics_qualifies)
  from none assms show "parseVirtMetrics srt (helpLine # rest, None) metrics =
         Inr (None, srt (metrics @ [\<lparr>name = n, description = d, mType = ''''\<rparr>]))"
    by (simp add: parseVirtMetrics_pair scanMetrics_qualifies)
qed

theorem descriptor_type_from_first_type_line_witness:
  "parseVirtMetrics nameSort
     ([''# HELP kubevirt_vmi_count some vm count.'', ''kubevirt_vmi_count 3'',
       ''# TYPE go_goroutines gauge'', ''# TYPE kubevirt_vmi_count gauge''], None) [] =
     Inr (None, [\<lparr>name = ''kubevirt_vmi_count'', description = ''Some vm count.'',
                  mType = ''Gauge''\<rparr>]) \<and>
   parseVirtMetrics nameSort
     ([''# HELP kubevirt_vmi_count some vm count.'', ''kubevirt_vmi_count 3'',
       ''# TYPE go_goroutines gauge''], None) [] =
     Inr (None, [\<lparr>name = ''kubevirt_vmi_count'', description = ''Some vm count.'',
                  mType = ''''\<rparr>])"
proof -
  have q: "qualifies ''# HELP kubevirt_vmi_count some vm count.''"
    by code_simp
  have desc: "parseMetricDesc ''# HELP kubevirt_vmi_count some vm count.'' =
      Inr (''kubevirt_vmi_count'', ''Some vm count.'')"
    by code_simp
  have lines: "\<not> typeLineFor ''kubevirt_vmi_count'' ''kubevirt_vmi_count 3''"
    "\<not> typeLineFor ''kubevirt_vmi_count'' ''# TYPE go_goroutines gauge''"
    "typeLineFor ''kubevirt_vmi_count'' ''# TYPE kubevirt_vmi_count gauge''"
    "4 \<le> length (Split ''# TYPE kubevirt_vmi_count gauge'')"
    "Title (Split ''# TYPE kubevirt_vmi_count gauge'' ! 3) = ''Gauge''"
    by code_simp+
  show ?thesis
    using descriptor_type_from_first_type_line [OF q desc,
        where mid = "[''kubevirt_vmi_count 3'', ''# TYPE go_goroutines gauge'']"
          and t = "''# TYPE kubevirt_vmi_count gauge''" and post = "[]" and e = None
          and metrics = "[]" and srt = nameSort
          and rest = "[''kubevirt_vmi_count 3'', ''# TYPE go_goroutines gauge'']"]
      lines
    by (simp add: parseVirtMetrics_pair nameSort_def)
qed

text \<open>
  The loop comes to the line after a well-formed part of the exposition, with the
  descriptors of that part collected. And the first type line for the name, when it is
  short of its fourth piece, ends the run in a panic.
\<close>

lemma parseVirtMetrics_after_wellFormed:
  assumes "wellFormed pre"
  shows "\<exists>ds. map name ds = map (\<lambda>l. Split l ! 2) (filter qualifies pre) \<and>
           (\<forall>rest e metrics. parseVirtMetrics srt (pre @ rest, e) metrics =
              parseVirtMetrics srt (rest, e) (metrics @ ds))"
proof -
  from scanMetrics_wellFormed [OF assms] obtain ds where
    ds: "map name ds = map (\<lambda>l. Split l ! 2) (filter qualifies pre)"
    "\<forall>post ms. scanMetrics (pre @ post) ms = scanMetrics post (ms @ ds)" by blast
  then have "parseVirtMetrics srt (pre @ rest, e) metrics =
      parseVirtMetrics srt (rest, e) (metrics @ ds)" for rest e metrics
    by (simp add: parseVirtMetrics_pair)
  with ds(1) show ?thesis by blast
qed

lemma short_type_line_panics:
  assumes "qualifies helpLine" and "parseMetricDesc helpLine = Inr (n, d)"
    and "\<forall>l \<in> set mid. \<not> typeLineFor n l" and "typeLineFor n t" and "length (Split t) < 4"
  shows "parseVirtMetrics srt (helpLine # mid @ t # post, e) metrics =
           Inl (IndexOutOfRange 3 (length (Split t)))"
proof -
  have "parseMetricType (mid @ t # post) n = Inl (IndexOutOfRange 3 (length (Split t)))"
    using assms(3-5) by (simp add: parseMetricType_skip_all parseMetricType_hit_short)
  with assms(1,2) show ?thesis
    by (simp add: parseVirtMetrics_pair scanMetrics_qualifies)
qed

section \<open>Facts about sorting and rendering\<close>

lemma sortSort_sorted: "sortSort srt \<Longrightarrow> sorted (map name (srt m))"
proof -
  assume s: "sortSort srt"
  have "name (srt m ! i) \<le> name (srt m ! j)" if "i < j" "j < length (srt m)" for i j
  proof -
    from s that have "\<not> Less (srt m) j i"
      by (simp add: sortSort_def Len_def)
    then show ?thesis by (simp add: Less_def)
  qed
  then show ?thesis
    by (simp add: sorted_iff_nth_mono_less)
qed

lemma sortSort_mset: "sortSort srt \<Longrightarrow> mset (srt m) = mset m"
  by (simp add: sortSort_def)

lemma sortSort_length: "sortSort srt \<Longrightarrow> length (srt m) = length m"
  by (metis sortSort_mset size_mset)


lemma sortSort_iff:
  "sortSort srt \<longleftrightarrow> (\<forall>m. mset (srt m) = mset m \<and> sorted (map name (srt m)))"
proof
  assume "sortSort srt"
  then show "\<forall>m. mset (srt m) = mset m \<and> sorted (map name (srt m))"
    by (simp add: sortSort_sorted sortSort_mset)
next
  assume a: "\<forall>m. mset (srt m) = mset m \<and> sorted (map name (srt m))"
  have "\<not> Less (srt m) j i" if "i < j" "j < Len (srt m)" for m i j
  proof -
    from a have "sorted (map name (srt m))" by blast
    with that have "name (srt m ! i) \<le> name (srt m ! j)"
      by (simp add: sorted_iff_nth_mono_less Len_def)
    then show ?thesis by (simp add: Less_def)
  qed
  with a show "sortSort srt"
    by (simp add: sortSort_def)
qed

lemma sortSort_nameSort: "sortSort nameSort"
  by (simp add: sortSort_iff nameSort_def)






section \<open>The catalog and the document\<close>






text \<open>
  C7: let \<open>A\<close> be the descriptors parsed from the body, \<open>B\<close> the thirteen literals of
  the registry and \<open>C\<close> the descriptors of the rules. The catalog is the sort of \<open>B\<close>,
  \<open>C\<close> and \<open>A\<close> one after the other: it has the entries of the three, each as often as
  they have it, so its length is the sum of the three lengths. Nothing is removed,
  merged or added, whether the names of the three are disjoint or not.
\<close>

theorem merged_catalog_length:
  assumes "sortSort srt" and "scanMetrics lines [] = Inr A"
  shows "\<exists>catalog.
           parseVirtMetrics srt (lines, None) (getMetricsNotIncludeInEndpointByDefault ds rules) =
             Inr (None, catalog) \<and>
           catalog = srt (staticMetrics ds @ map ruleMetric rules @ A) \<and>
           mset catalog = mset A + mset (staticMetrics ds) + mset (map ruleMetric rules) \<and>
           length catalog = length A + length (staticMetrics ds) + length (map ruleMetric rules) \<and>
           length (staticMetrics ds) = 13"
proof -
  let ?B = "staticMetrics ds" and ?C = "map ruleMetric rules"
  from assms(2) have "scanMetrics lines (?B @ ?C) = Inr (?B @ ?C @ A)"
    using scanMetrics_acc [of lines "?B @ ?C"] by simp
  then have "parseVirtMetrics srt (lines, None) (getMetricsNotIncludeInEndpointByDefault ds rules) =
      Inr (None, srt (?B @ ?C @ A))"
    by (simp add: parseVirtMetrics_pair getMetricsNotIncludeInEndpointByDefault_def)
  moreover have "mset (srt (?B @ ?C @ A)) = mset A + mset ?B + mset ?C"
    using assms(1) by (simp add: sortSort_mset)
  moreover have "length (srt (?B @ ?C @ A)) = length A + length ?B + length ?C"
    using assms(1) by (simp add: sortSort_length)
  moreover have "length ?B = 13"
    by (simp add: staticMetrics_def)
  ultimately show ?thesis by blast
qed

theorem merged_catalog_length_witness:
  "scanMetrics exampleBody [] = Inr exampleParsed \<and>
   parseVirtMetrics nameSort (exampleBody, None)
     (getMetricsNotIncludeInEndpointByDefault exampleDomainstats exampleRules) =
     Inr (None, exampleCatalog) \<and>
   length exampleCatalog = 16"
proof -
  have scan: "scanMetrics exampleBody [] = Inr exampleParsed"
    by code_simp
  have sizes: "length exampleParsed = 2" "length exampleRules = 1"
    by (simp_all add: exampleParsed_def exampleRules_def)
  from merged_catalog_length [OF sortSort_nameSort scan, of exampleDomainstats exampleRules]
  show ?thesis
    using scan sizes by (auto simp: exampleCatalog_def)
qed




section \<open>The status of the scrape\<close>

text \<open>\<open>formatNat\<close> writes the number: read as decimal digits, its result is the number.\<close>

lemma digit_value: "k < 10 \<Longrightarrow> of_char (''0123456789'' ! k) = (48 + k :: nat)"
proof -
  assume "k < 10"
  then have "k \<in> {0, 1, 2, 3, 4, 5, 6, 7, 8, 9}" by auto
  then show ?thesis by auto
qed

lemma decimalValue_formatNat: "decimalValue (formatNat n) = n"
proof (induction n rule: formatNat.induct)
  case (1 n)
  show ?case
  proof (cases "n < 10")
    case True
    then show ?thesis
      by (subst formatNat.simps) (simp add: decimalValue_def digit_value)
  next
    case False
    with 1 have "decimalValue (formatNat (n div 10)) = n div 10" by simp
    moreover have "n mod 10 < 10" by simp
    ultimately show ?thesis
      using False
      by (subst formatNat.simps) (simp add: decimalValue_def digit_value)
  qed
qed

lemma decimalValue_formatInt: "0 \<le> code \<Longrightarrow> int (decimalValue (formatInt code)) = code"
  by (simp add: formatInt_def decimalValue_formatNat)

text \<open>
  C9: for every status other than 200 the run panics, whatever the body is, so nothing is
  parsed and \<open>newmetrics.md\<close> is not written; the message of the panic is
  \<open>got HTTP status code of <code> from /metrics\<close> and so contains the status in decimal.
  The body is parsed only in the branch of status 200.
\<close>

theorem main_bad_status_panics:
  "code \<noteq> 200 \<Longrightarrow>
     main srt ds rules code body createErr =
       Inl (PanicError (''got HTTP status code of '' @ formatInt code @ '' from /metrics'')) \<and>
     Contains (''got HTTP status code of '' @ formatInt code @ '' from /metrics'') (formatInt code)"
  using Contains_middle [of "''got HTTP status code of ''" "formatInt code" "'' from /metrics''"]
  by (simp add: main_def)

theorem main_bad_status_panics_witness:
  "main nameSort exampleDomainstats exampleRules 404
       ([''# HELP kubevirt_vmi_count some vm count.''], None) None =
     Inl (PanicError ''got HTTP status code of 404 from /metrics'') \<and>
   Contains ''got HTTP status code of 404 from /metrics'' ''404''"
proof -
  have "formatInt 404 = ''404''"
    by (simp add: formatInt_def formatNat.simps)
  then show ?thesis
    using main_bad_status_panics
      [of 404 nameSort exampleDomainstats exampleRules
        "([''# HELP kubevirt_vmi_count some vm count.''], None)" None]
    by simp
qed

section \<open>Feature gates\<close>

lemma listedGate_iff: "listedGate fgs featureGate \<longleftrightarrow> featureGate \<in> set fgs"
  by (induction fgs) auto

lemma DeprecatedFeatureGateInfo_None:
  "DeprecatedFeatureGateInfo table featureGate = None \<longleftrightarrow> featureGate \<notin> Name ` set table"
  by (induction table) auto

lemma DeprecatedFeatureGateInfo_Some:
  "DeprecatedFeatureGateInfo table featureGate = Some d \<Longrightarrow> d \<in> set table \<and> Name d = featureGate"
  by (induction table) (auto split: if_splits)

text \<open>
  In the table of the package the five gates that are generally available are enabled
  whatever the configuration says, and the Passt gate, which is only deprecated, is
  enabled when the configuration lists it.
\<close>

lemma featureGates_GA:
  "featureGate \<in> {LiveMigrationGate g, SRIOVLiveMigrationGate g, NonRoot g, PSA g,
      CPUNodeDiscoveryGate g}
   \<Longrightarrow> isFeatureGateEnabled (featureGates g) config featureGate"
  by (auto simp: isFeatureGateEnabled_def featureGates_def featureGates_literal_def)

lemma featureGates_Passt:
  "PasstGate g \<notin> {LiveMigrationGate g, SRIOVLiveMigrationGate g, NonRoot g, PSA g,
      CPUNodeDiscoveryGate g}
   \<Longrightarrow> isFeatureGateEnabled (featureGates g) config (PasstGate g) \<longleftrightarrow>
       PasstGate g \<in> set (FeatureGates (DeveloperConfiguration (GetConfig config)))"
  by (auto simp: isFeatureGateEnabled_def featureGates_def featureGates_literal_def
      listedGate_iff Deprecated_def GA_def Discontinued_def)

text \<open>
  C10: the entry of a name is the one \<open>DeprecatedFeatureGateInfo\<close> finds. With state GA
  the gate is enabled and with state Discontinued it is not, whatever the configuration
  lists; with any other state, and for a name that no entry of the table has, the gate is
  enabled exactly when the list of feature gates of the configuration has the name.
\<close>

theorem isFeatureGateEnabled_by_state:
  "(\<forall>d. DeprecatedFeatureGateInfo table featureGate = Some d \<and> State d = GA \<longrightarrow>
        isFeatureGateEnabled table config featureGate) \<and>
   (\<forall>d. DeprecatedFeatureGateInfo table featureGate = Some d \<and> State d = Discontinued \<longrightarrow>
        \<not> isFeatureGateEnabled table config featureGate) \<and>
   (\<forall>d. DeprecatedFeatureGateInfo table featureGate = Some d \<and> State d \<noteq> GA \<and>
        State d \<noteq> Discontinued \<longrightarrow>
        (isFeatureGateEnabled table config featureGate \<longleftrightarrow>
           featureGate \<in> set (FeatureGates (DeveloperConfiguration (GetConfig config))))) \<and>
   (featureGate \<notin> Name ` set table \<longrightarrow>
        (isFeatureGateEnabled table config featureGate \<longleftrightarrow>
           featureGate \<in> set (FeatureGates (DeveloperConfiguration (GetConfig config)))))"
proof (intro conjI allI impI)
  fix d
  assume "DeprecatedFeatureGateInfo table featureGate = Some d \<and> State d = GA"
  then show "isFeatureGateEnabled table config featureGate"
    by (simp add: isFeatureGateEnabled_def)
next
  fix d
  assume "DeprecatedFeatureGateInfo table featureGate = Some d \<and> State d = Discontinued"
  moreover have "Discontinued \<noteq> GA"
    by (simp add: Discontinued_def GA_def)
  ultimately show "\<not> isFeatureGateEnabled table config featureGate"
    by (simp add: isFeatureGateEnabled_def)
next
  fix d
  assume "DeprecatedFeatureGateInfo table featureGate = Some d \<and> State d \<noteq> GA \<and>
        State d \<noteq> Discontinued"
  then show "isFeatureGateEnabled table config featureGate \<longleftrightarrow>
           featureGate \<in> set (FeatureGates (DeveloperConfiguration (GetConfig config)))"
    by (simp add: isFeatureGateEnabled_def listedGate_iff)
next
  assume "featureGate \<notin> Name ` set table"
  then have "DeprecatedFeatureGateInfo table featureGate = None"
    by (simp add: DeprecatedFeatureGateInfo_None)
  then show "isFeatureGateEnabled table config featureGate \<longleftrightarrow>
           featureGate \<in> set (FeatureGates (DeveloperConfiguration (GetConfig config)))"
    by (simp add: isFeatureGateEnabled_def listedGate_iff)
qed

theorem isFeatureGateEnabled_by_state_witness:
  "isFeatureGateEnabled exampleTable (exampleConfig []) ''PSA'' \<and>
   \<not> isFeatureGateEnabled exampleTable (exampleConfig [''Retired'', ''Passt'']) ''Retired'' \<and>
   isFeatureGateEnabled exampleTable (exampleConfig [''Retired'', ''Passt'']) ''Passt'' \<and>
   \<not> isFeatureGateEnabled exampleTable (exampleConfig [''Retired'']) ''Passt'' \<and>
   isFeatureGateEnabled exampleTable (exampleConfig [''Retired'', ''Root'']) ''Root'' \<and>
   \<not> isFeatureGateEnabled exampleTable (exampleConfig [''Retired'']) ''Root''"
proof -
  have psa: "DeprecatedFeatureGateInfo exampleTable ''PSA'' =
      Some \<lparr>Name = ''PSA'', State = GA, Message = warningPattern ''PSA''\<rparr>"
    by (simp add: exampleTable_def exampleGates_def featureGates_def featureGates_literal_def)
  have retired: "DeprecatedFeatureGateInfo exampleTable ''Retired'' =
      Some \<lparr>Name = ''Retired'', State = Discontinued, Message = ''gone''\<rparr>"
    by (simp add: exampleTable_def exampleGates_def featureGates_def featureGates_literal_def)
  have passt: "DeprecatedFeatureGateInfo exampleTable ''Passt'' =
      Some \<lparr>Name = ''Passt'', State = Deprecated, Message = ''Passt network binding will be deprecated next release. Please refer to Kubevirt user guide for alternatives.''\<rparr>"
    by (simp add: exampleTable_def exampleGates_def featureGates_def featureGates_literal_def)
  have root: "''Root'' \<notin> Name ` set exampleTable"
    by (simp add: exampleTable_def exampleGates_def featureGates_def featureGates_literal_def)
  have states: "Deprecated \<noteq> GA" "Deprecated \<noteq> Discontinued"
    by (simp_all add: Deprecated_def GA_def Discontinued_def)
  show ?thesis
    using isFeatureGateEnabled_by_state [of exampleTable "''PSA''" "exampleConfig []"]
      isFeatureGateEnabled_by_state [of exampleTable "''Retired''" "exampleConfig [''Retired'', ''Passt'']"]
      isFeatureGateEnabled_by_state [of exampleTable "''Passt''" "exampleConfig [''Retired'', ''Passt'']"]
      isFeatureGateEnabled_by_state [of exampleTable "''Passt''" "exampleConfig [''Retired'']"]
      isFeatureGateEnabled_by_state [of exampleTable "''Root''" "exampleConfig [''Retired'', ''Root'']"]
      isFeatureGateEnabled_by_state [of exampleTable "''Root''" "exampleConfig [''Retired'']"]
      psa retired passt root states
    by (simp add: exampleConfig_def)
qed

end
